theory Spec2Isabelle
  imports Complex_Main
begin

section \<open>Python values used by \<^verbatim>\<open>server/search.py\<close>\<close>

text \<open>
  The upstream answers are typed by the module's own \<^verbatim>\<open>TypedDict\<close> declarations
  (lines 33--73). A key whose declared value type is \<^verbatim>\<open>Optional[T]\<close> and that the code
  reads with \<^verbatim>\<open>.get\<close> or \<^verbatim>\<open>in\<close> has three states: the key is absent, it is bound
  to \<^verbatim>\<open>None\<close>, or it is bound to a \<^verbatim>\<open>T\<close>. A key of a non-optional type that the code
  reads with \<^verbatim>\<open>.get\<close> is an \<open>option\<close>: absent, or bound to a value.
\<close>

datatype 'a field = Absent | Null | Present 'a

text \<open>\<^verbatim>\<open>d.get(k)\<close>: Python's \<^verbatim>\<open>None\<close> when the key is absent or bound to \<^verbatim>\<open>None\<close>.\<close>

fun dict_get :: "'a field \<Rightarrow> 'a option" where
  "dict_get Absent = None"
| "dict_get Null = None"
| "dict_get (Present v) = Some v"

text \<open>\<^verbatim>\<open>d.get(k, default)\<close>: the default stands in for an absent key only.\<close>

fun dict_get_default :: "'a field \<Rightarrow> 'a \<Rightarrow> 'a option" where
  "dict_get_default Absent d = Some d"
| "dict_get_default Null d = None"
| "dict_get_default (Present v) d = Some v"

text \<open>\<^verbatim>\<open>k in d\<close>.\<close>

fun has_key :: "'a field \<Rightarrow> bool" where
  "has_key Absent = False"
| "has_key Null = True"
| "has_key (Present v) = True"

text \<open>Truth value of an \<^verbatim>\<open>Optional[str]\<close>: \<^verbatim>\<open>None\<close> and the empty string are false.\<close>

fun truthy_str :: "string option \<Rightarrow> bool" where
  "truthy_str None = False"
| "truthy_str (Some s) = (s \<noteq> [])"

text \<open>\<^verbatim>\<open>str(v)\<close> of an \<^verbatim>\<open>Optional[str]\<close>, as an f-string applies it.\<close>

fun str_opt :: "string option \<Rightarrow> string" where
  "str_opt None = ''None''"
| "str_opt (Some s) = s"

text \<open>\<^verbatim>\<open>str(n)\<close> of a Python integer: decimal digits, a minus sign when negative.\<close>

definition digit_char :: "nat \<Rightarrow> char" where
  "digit_char d = ''0123456789'' ! d"

function str_nat :: "nat \<Rightarrow> string" where
  "str_nat n = (if n < 10 then [digit_char n] else str_nat (n div 10) @ [digit_char (n mod 10)])"
  by pat_completeness auto
termination
  by (relation "measure (\<lambda>n. n)") auto

definition str_int :: "int \<Rightarrow> string" where
  "str_int i = (if i < 0 then ''-'' @ str_nat (nat (- i)) else str_nat (nat i))"

text \<open>\<^verbatim>\<open>sep.join(xs)\<close>.\<close>

fun join :: "string \<Rightarrow> string list \<Rightarrow> string" where
  "join sep [] = []"
| "join sep [x] = x"
| "join sep (x # y # ys) = x @ sep @ join sep (y # ys)"

definition nl :: string where
  "nl = [CHR 0x0A]"

section \<open>Exceptions\<close>

text \<open>
  The exceptions a tool call can meet, each an instance of Python's \<^verbatim>\<open>Exception\<close>.
  \<open>RateLimitExceeded\<close> is \<^verbatim>\<open>ValueError('Rate limit exceeded')\<close> (line 90);
  \<open>UpstreamError status reason body\<close> is the \<^verbatim>\<open>ValueError\<close> of lines 118, 160, 187 and 263;
  \<open>TypeError msg\<close> is raised by the interpreter; \<open>TransportError msg\<close> is any exception of
  the HTTP collaborator (connection, time-out, body that is not JSON), with \<open>msg\<close> its
  \<^verbatim>\<open>str(e)\<close>.
\<close>

datatype error =
    RateLimitExceeded
  | UpstreamError int string string
  | TypeError string
  | TransportError string

text \<open>\<^verbatim>\<open>str(e)\<close>.\<close>

fun str_exc :: "error \<Rightarrow> string" where
  "str_exc RateLimitExceeded = ''Rate limit exceeded''"
| "str_exc (UpstreamError status reason body) =
     ''Brave API error: '' @ str_int status @ '' '' @ reason @ nl @ body"
| "str_exc (TypeError msg) = msg"
| "str_exc (TransportError msg) = msg"

text \<open>The message of \<^verbatim>\<open>'results' in None\<close>, as CPython 3.11 words it.\<close>

definition not_iterable :: string where
  "not_iterable = ''argument of type 'NoneType' is not iterable''"

section \<open>Requests, answers, and the module's state\<close>

datatype pval = PStr string | PInt int

record request =
  req_url :: string
  req_params :: "(string \<times> pval) list"
  req_headers :: "(string \<times> string) list"

text \<open>
  What \<^verbatim>\<open>client.get\<close> gives back: it raises, or it returns a response with
  \<^verbatim>\<open>status_code\<close>, \<^verbatim>\<open>reason_phrase\<close>, \<^verbatim>\<open>text\<close> and \<^verbatim>\<open>json()\<close> (which raises, \<open>Inl\<close>, or
  returns the parsed body).
\<close>

record 'a response =
  status_code :: int
  reason_phrase :: string
  body_text :: string
  json :: "string + 'a"

datatype 'a http_result = Raises string | Returns "'a response"

record rate_limit =
  per_second :: int
  per_month :: int

record request_count =
  second :: int
  month :: int
  last_reset :: real

text \<open>
  The module globals \<^verbatim>\<open>RATE_LIMIT\<close> (lines 20--23) and \<^verbatim>\<open>request_count\<close> (lines 26--30),
  with the trace of the effects on the collaborators: how often the clock was read and
  which requests were sent so far. A time stamp is the real number of seconds that the
  float denotes.
\<close>

record world =
  RATE_LIMIT :: rate_limit
  request_count :: request_count
  ticks :: nat
  sent :: "request list"

definition initial_world :: "real \<Rightarrow> world" where
  "initial_world t0 =
     \<lparr>RATE_LIMIT = \<lparr>per_second = 1, per_month = 15000\<rparr>,
      request_count = \<lparr>second = 0, month = 0, last_reset = t0\<rparr>,
      ticks = 0, sent = []\<rparr>"

section \<open>The upstream answers (lines 33--73)\<close>

record web_result =
  title :: "string option"
  description :: "string option"
  url :: "string option"

record web_response =
  web :: "(string \<times> web_result list) list field"
  locations :: "(string \<times> (string \<times> string) list list) list field"

record location_address =
  streetAddress :: "string field"
  addressLocality :: "string field"
  addressRegion :: "string field"
  postalCode :: "string field"

record 'f location_rating =
  ratingValue :: "'f field"
  ratingCount :: "int field"

text \<open>
  \<^verbatim>\<open>BraveLocation\<close>; \<open>'f\<close> is Python's \<^verbatim>\<open>float\<close>. The key \<^verbatim>\<open>coordinates\<close> is never read
  and is left out.
\<close>

record 'f location =
  poi_id :: string
  name :: "string option"
  address :: "location_address option"
  phone :: "string field"
  rating :: "'f location_rating field"
  openingHours :: "string list field"
  priceRange :: "string field"

record 'f poi_response =
  results :: "'f location list option"

record description_response =
  descriptions :: "(string \<times> string) list option"

text \<open>
  The collaborators: the clock (\<open>clock env k\<close> is what the \<open>k\<close>-th call of
  \<^verbatim>\<open>time.time()\<close> returns), the three upstream endpoints (each answer may depend on how
  many requests were sent before), \<^verbatim>\<open>str\<close> on floats, the API key read at start-up
  (line 15), and which of the two concurrent lookups completes first.
\<close>

record 'f env =
  clock :: "nat \<Rightarrow> real"
  web_api :: "nat \<Rightarrow> request \<Rightarrow> web_response http_result"
  pois_api :: "nat \<Rightarrow> request \<Rightarrow> 'f poi_response http_result"
  descriptions_api :: "nat \<Rightarrow> request \<Rightarrow> description_response http_result"
  float_str :: "'f \<Rightarrow> string"
  BRAVE_API_KEY :: string
  pois_done_first :: bool

section \<open>The rate gate (lines 81--93)\<close>

text \<open>
  Python's floats are binary64 numbers, and \<^verbatim>\<open>now - request_count["last_reset"]\<close> is the
  exact difference rounded to the nearest binary64 number, a tie going to the even
  significand. \<open>binary64_ulp x\<close> is the distance of the binary64 numbers around \<open>x\<close>: 52
  binary places below the leading one, and never below those of the least normal
  exponent, \<open>- 1022\<close>. A result beyond the largest binary64 number stays finite here,
  which is the same to the comparison with 1.
\<close>

definition round_half_even :: "real \<Rightarrow> int" where
  "round_half_even x =
     (let f = \<lfloor>x\<rfloor> in
      if x - of_int f < 1/2 then f
      else if 1/2 < x - of_int f then f + 1
      else if even f then f else f + 1)"

definition binary64_ulp :: "real \<Rightarrow> real" where
  "binary64_ulp x = 2 powr (of_int (max \<lfloor>log 2 \<bar>x\<bar>\<rfloor> (- 1022)) - 52)"

definition round64 :: "real \<Rightarrow> real" where
  "round64 x =
     (if x = 0 then 0 else of_int (round_half_even (x / binary64_ulp x)) * binary64_ulp x)"

definition float_sub :: "real \<Rightarrow> real \<Rightarrow> real" where
  "float_sub a b = round64 (a - b)"

text \<open>Lines 84--86: the window adjustment, for the reading \<open>now\<close> of the clock.\<close>

definition roll_window :: "real \<Rightarrow> request_count \<Rightarrow> request_count" where
  "roll_window now rc =
     (if float_sub now (last_reset rc) > 1 then rc\<lparr>second := 0, last_reset := now\<rparr> else rc)"

text \<open>
  \<^verbatim>\<open>check_rate_limit()\<close>. The counters are module state, so the adjustment of the
  window stays in place when the call raises.
\<close>

definition check_rate_limit :: "'f env \<Rightarrow> world \<Rightarrow> (error + unit) \<times> world" where
  "check_rate_limit env w =
     (let now = clock env (ticks w);
          rc = roll_window now (request_count w);
          w1 = w\<lparr>ticks := Suc (ticks w), request_count := rc\<rparr>
      in if second rc \<ge> per_second (RATE_LIMIT w1) \<or> month rc \<ge> per_month (RATE_LIMIT w1)
         then (Inl RateLimitExceeded, w1)
         else (Inr (), w1\<lparr>request_count := rc\<lparr>second := second rc + 1, month := month rc + 1\<rparr>\<rparr>))"


section \<open>The HTTP call\<close>

text \<open>
  The block \<^verbatim>\<open>async with mcp.http_client() as client\<close> that each search function
  repeats (lines 114--120, 156--162, 183--189, 259--265): send the request, raise on a
  status other than 200, parse the body.
\<close>

definition http_get ::
  "(nat \<Rightarrow> request \<Rightarrow> 'a http_result) \<Rightarrow> request \<Rightarrow> world \<Rightarrow> (error + 'a) \<times> world" where
  "http_get api req w =
     (let w1 = w\<lparr>sent := sent w @ [req]\<rparr> in
      case api (length (sent w)) req of
        Raises msg \<Rightarrow> (Inl (TransportError msg), w1)
      | Returns r \<Rightarrow>
          if status_code r \<noteq> 200
          then (Inl (UpstreamError (status_code r) (reason_phrase r) (body_text r)), w1)
          else (case json r of
                  Inl msg \<Rightarrow> (Inl (TransportError msg), w1)
                | Inr data \<Rightarrow> (Inr data, w1)))"

definition auth_headers :: "'f env \<Rightarrow> (string \<times> string) list" where
  "auth_headers env =
     [(''Accept'', ''application/json''),
      (''Accept-Encoding'', ''gzip''),
      (''X-Subscription-Token'', BRAVE_API_KEY env)]"

section \<open>Web search (lines 95--135)\<close>

definition web_search_request :: "'f env \<Rightarrow> string \<Rightarrow> int \<Rightarrow> int \<Rightarrow> request" where
  "web_search_request env query count offset =
     \<lparr>req_url = ''https://api.search.brave.com/res/v1/web/search'',
      req_params = [(''q'', PStr query), (''count'', PInt (min count 20)), (''offset'', PInt offset)],
      req_headers = auth_headers env\<rparr>"

text \<open>The dictionary appended to \<^verbatim>\<open>results\<close> in lines 126--130.\<close>

record result_item =
  item_title :: string
  item_description :: string
  item_url :: string

text \<open>The loop of lines 125--130; \<open>acc\<close> is the list \<^verbatim>\<open>results\<close>.\<close>

fun collect_results :: "web_result list \<Rightarrow> result_item list \<Rightarrow> result_item list" where
  "collect_results [] acc = acc"
| "collect_results (r # rs) acc =
     collect_results rs
       (acc @ [\<lparr>item_title = (case title r of None \<Rightarrow> [] | Some s \<Rightarrow> s),
                item_description = (case description r of None \<Rightarrow> [] | Some s \<Rightarrow> s),
                item_url = (case url r of None \<Rightarrow> [] | Some s \<Rightarrow> s)\<rparr>])"

text \<open>
  Lines 123--130. \<^verbatim>\<open>'results' in data['web']\<close> raises \<^verbatim>\<open>TypeError\<close> when the key
  \<^verbatim>\<open>web\<close> is bound to \<^verbatim>\<open>None\<close>.
\<close>

definition extract_web_results :: "web_response \<Rightarrow> error + result_item list" where
  "extract_web_results data =
     (if has_key (web data)
      then (case dict_get (web data) of
              None \<Rightarrow> Inl (TypeError not_iterable)
            | Some d \<Rightarrow>
                (case map_of d ''results'' of
                   None \<Rightarrow> Inr []
                 | Some rs \<Rightarrow> Inr (collect_results rs [])))
      else Inr [])"

text \<open>Lines 132--135.\<close>

definition format_web_result :: "result_item \<Rightarrow> string" where
  "format_web_result r =
     ''Title: '' @ item_title r @ nl @ ''Description: '' @ item_description r @ nl
       @ ''URL: '' @ item_url r"

definition format_web_results :: "result_item list \<Rightarrow> string" where
  "format_web_results rs = join (nl @ nl) (map format_web_result rs)"

definition perform_web_search ::
  "'f env \<Rightarrow> string \<Rightarrow> int \<Rightarrow> int \<Rightarrow> world \<Rightarrow> (error + string) \<times> world" where
  "perform_web_search env query count offset w =
     (case check_rate_limit env w of
        (Inl e, w1) \<Rightarrow> (Inl e, w1)
      | (Inr u, w1) \<Rightarrow>
          (case http_get (web_api env) (web_search_request env query count offset) w1 of
             (Inl e, w2) \<Rightarrow> (Inl e, w2)
           | (Inr data, w2) \<Rightarrow>
               (case extract_web_results data of
                  Inl e \<Rightarrow> (Inl e, w2)
                | Inr rs \<Rightarrow> (Inr (format_web_results rs), w2))))"

section \<open>Local search (lines 137--282)\<close>

text \<open>
  \<^verbatim>\<open>get_pois_data\<close> (lines 137--162) and \<^verbatim>\<open>get_descriptions_data\<close> (lines 164--189):
  the rate gate, the ids that are not empty, one \<^verbatim>\<open>ids\<close> parameter per id.
\<close>

definition ids_request :: "'f env \<Rightarrow> string \<Rightarrow> string list \<Rightarrow> request" where
  "ids_request env endpoint ids =
     \<lparr>req_url = endpoint,
      req_params = map (\<lambda>i. (''ids'', PStr i)) (filter (\<lambda>i. i \<noteq> []) ids),
      req_headers = auth_headers env\<rparr>"

definition get_pois_data ::
  "'f env \<Rightarrow> string list \<Rightarrow> world \<Rightarrow> (error + 'f poi_response) \<times> world" where
  "get_pois_data env ids w =
     (case check_rate_limit env w of
        (Inl e, w1) \<Rightarrow> (Inl e, w1)
      | (Inr u, w1) \<Rightarrow>
          http_get (pois_api env)
            (ids_request env ''https://api.search.brave.com/res/v1/local/pois'' ids) w1)"

definition get_descriptions_data ::
  "'f env \<Rightarrow> string list \<Rightarrow> world \<Rightarrow> (error + description_response) \<times> world" where
  "get_descriptions_data env ids w =
     (case check_rate_limit env w of
        (Inl e, w1) \<Rightarrow> (Inl e, w1)
      | (Inr u, w1) \<Rightarrow>
          http_get (descriptions_api env)
            (ids_request env ''https://api.search.brave.com/res/v1/local/descriptions'' ids) w1)"

text \<open>
  A dictionary of a \<^verbatim>\<open>TypedDict\<close> type is true when it has a key.
\<close>

definition address_truthy :: "location_address \<Rightarrow> bool" where
  "address_truthy a \<longleftrightarrow>
     has_key (streetAddress a) \<or> has_key (addressLocality a)
       \<or> has_key (addressRegion a) \<or> has_key (postalCode a)"

definition rating_truthy :: "'f location_rating \<Rightarrow> bool" where
  "rating_truthy r \<longleftrightarrow> has_key (ratingValue r) \<or> has_key (ratingCount r)"

text \<open>One \<^verbatim>\<open>if a.get(k): address_parts.append(a[k])\<close> of lines 201--208.\<close>

definition append_part :: "string field \<Rightarrow> string list \<Rightarrow> string list" where
  "append_part f parts =
     (if truthy_str (dict_get f)
      then (case dict_get f of Some s \<Rightarrow> parts @ [s] | None \<Rightarrow> parts)
      else parts)"

text \<open>Lines 199--210.\<close>

definition address_text :: "'f location \<Rightarrow> string" where
  "address_text poi =
     (let address_parts =
        (case address poi of
           None \<Rightarrow> []
         | Some a \<Rightarrow>
             if address_truthy a
             then append_part (postalCode a)
                    (append_part (addressRegion a)
                      (append_part (addressLocality a)
                        (append_part (streetAddress a) [])))
             else [])
      in if address_parts \<noteq> [] then join '', '' address_parts else ''N/A'')"

text \<open>
  Lines 212--218 and line 231: \<^verbatim>\<open>rating_value\<close> and \<^verbatim>\<open>rating_count\<close>, then
  \<^verbatim>\<open>f"{rating_value} ({rating_count} reviews)"\<close>.
\<close>

definition rating_text :: "('f \<Rightarrow> string) \<Rightarrow> 'f location \<Rightarrow> string" where
  "rating_text fstr poi =
     (let (rating_value, rating_count) =
        (case dict_get (rating poi) of
           None \<Rightarrow> (''N/A'', 0)
         | Some r \<Rightarrow>
             if rating_truthy r
             then ((case dict_get (ratingValue r) of None \<Rightarrow> ''N/A'' | Some v \<Rightarrow> fstr v),
                   (case dict_get (ratingCount r) of None \<Rightarrow> 0 | Some n \<Rightarrow> n))
             else (''N/A'', 0))
      in rating_value @ '' ('' @ str_int rating_count @ '' reviews)'')"

text \<open>Lines 220--222.\<close>

definition hours_text :: "'f location \<Rightarrow> string" where
  "hours_text poi =
     (case dict_get (openingHours poi) of
        None \<Rightarrow> ''N/A''
      | Some hs \<Rightarrow> if hs \<noteq> [] then join '', '' hs else ''N/A'')"

text \<open>Lines 224--226.\<close>

definition description_text :: "description_response \<Rightarrow> 'f location \<Rightarrow> string" where
  "description_text desc_data poi =
     (case descriptions desc_data of
        None \<Rightarrow> ''No description available''
      | Some m \<Rightarrow>
          if m \<noteq> []
          then (case map_of m (poi_id poi) of
                  None \<Rightarrow> ''No description available''
                | Some d \<Rightarrow> d)
          else ''No description available'')"

text \<open>
  The f-string of lines 228--234, with its three \<^verbatim>\<open>poi.get(k, 'N/A')\<close> first.
\<close>

definition name_text :: "'f location \<Rightarrow> string" where
  "name_text poi = (case name poi of None \<Rightarrow> ''N/A'' | Some s \<Rightarrow> s)"

definition phone_text :: "'f location \<Rightarrow> string" where
  "phone_text poi = str_opt (dict_get_default (phone poi) ''N/A'')"

definition price_range_text :: "'f location \<Rightarrow> string" where
  "price_range_text poi = str_opt (dict_get_default (priceRange poi) ''N/A'')"

definition format_poi :: "('f \<Rightarrow> string) \<Rightarrow> description_response \<Rightarrow> 'f location \<Rightarrow> string" where
  "format_poi fstr desc_data poi =
     ''Name: '' @ name_text poi @ nl
     @ ''Address: '' @ address_text poi @ nl
     @ ''Phone: '' @ phone_text poi @ nl
     @ ''Rating: '' @ rating_text fstr poi @ nl
     @ ''Price Range: '' @ price_range_text poi @ nl
     @ ''Hours: '' @ hours_text poi @ nl
     @ ''Description: '' @ description_text desc_data poi"

text \<open>The loop of lines 198--236; \<open>acc\<close> is the list \<^verbatim>\<open>formatted_results\<close>.\<close>

fun format_pois ::
  "('f \<Rightarrow> string) \<Rightarrow> description_response \<Rightarrow> 'f location list \<Rightarrow> string list \<Rightarrow> string list" where
  "format_pois fstr desc_data [] acc = acc"
| "format_pois fstr desc_data (poi # pois) acc =
     format_pois fstr desc_data pois (acc @ [format_poi fstr desc_data poi])"

text \<open>\<^verbatim>\<open>format_local_results\<close> (lines 191--238).\<close>

definition format_local_results ::
  "('f \<Rightarrow> string) \<Rightarrow> 'f poi_response \<Rightarrow> description_response \<Rightarrow> string" where
  "format_local_results fstr pois_data desc_data =
     (case results pois_data of
        None \<Rightarrow> ''No local results found''
      | Some pois \<Rightarrow>
          if pois = [] then ''No local results found''
          else join (nl @ ''---'' @ nl) (format_pois fstr desc_data pois []))"

text \<open>The request of lines 245--257.\<close>

definition local_search_request :: "'f env \<Rightarrow> string \<Rightarrow> int \<Rightarrow> request" where
  "local_search_request env query count =
     \<lparr>req_url = ''https://api.search.brave.com/res/v1/web/search'',
      req_params = [(''q'', PStr query), (''search_lang'', PStr ''en''),
                    (''result_filter'', PStr ''locations''), (''count'', PInt (min count 20))],
      req_headers = auth_headers env\<rparr>"

text \<open>Lines 268--270: the ids of the results whose \<^verbatim>\<open>id\<close> is true.\<close>

fun truthy_ids :: "(string \<times> string) list list \<Rightarrow> string list" where
  "truthy_ids [] = []"
| "truthy_ids (r # rs) =
     (case map_of r ''id'' of
        None \<Rightarrow> truthy_ids rs
      | Some i \<Rightarrow> if i \<noteq> [] then i # truthy_ids rs else truthy_ids rs)"

definition extract_location_ids :: "web_response \<Rightarrow> string list" where
  "extract_location_ids web_data =
     (case dict_get (locations web_data) of
        None \<Rightarrow> []
      | Some locs \<Rightarrow>
          if locs \<noteq> []
          then (case map_of locs ''results'' of
                  None \<Rightarrow> []
                | Some rs \<Rightarrow> if rs \<noteq> [] then truthy_ids rs else [])
          else [])"

text \<open>Lines 242--265: the rate gate and the initial request.\<close>

definition initial_lookup ::
  "'f env \<Rightarrow> string \<Rightarrow> int \<Rightarrow> world \<Rightarrow> (error + web_response) \<times> world" where
  "initial_lookup env query count w =
     (case check_rate_limit env w of
        (Inl e, w1) \<Rightarrow> (Inl e, w1)
      | (Inr u, w1) \<Rightarrow> http_get (web_api env) (local_search_request env query count) w1)"

text \<open>
  \<^verbatim>\<open>asyncio.gather\<close> of the two lookups (lines 277--280). Both tasks are started, so the
  second runs its rate check and sends its request whatever the first does; the first
  exception to be raised comes out. A task that fails its rate check fails in its first
  step; \<open>pois_done_first\<close> orders two failures otherwise.
\<close>

definition gather_lookups ::
  "'f env \<Rightarrow> string list \<Rightarrow> world
     \<Rightarrow> (error + 'f poi_response \<times> description_response) \<times> world" where
  "gather_lookups env ids w =
     (case get_pois_data env ids w of
        (r1, w1) \<Rightarrow>
          (case get_descriptions_data env ids w1 of
             (r2, w2) \<Rightarrow>
               ((case (r1, r2) of
                   (Inr p, Inr d) \<Rightarrow> Inr (p, d)
                 | (Inl e1, Inr d) \<Rightarrow> Inl e1
                 | (Inr p, Inl e2) \<Rightarrow> Inl e2
                 | (Inl e1, Inl e2) \<Rightarrow>
                     Inl (if e1 = RateLimitExceeded \<or> pois_done_first env then e1 else e2)),
                w2)))"

text \<open>\<^verbatim>\<open>perform_local_search\<close> (lines 240--282); \<^verbatim>\<open>offset\<close> has its default, 0.\<close>

definition perform_local_search ::
  "'f env \<Rightarrow> string \<Rightarrow> int \<Rightarrow> world \<Rightarrow> (error + string) \<times> world" where
  "perform_local_search env query count w =
     (case initial_lookup env query count w of
        (Inl e, w1) \<Rightarrow> (Inl e, w1)
      | (Inr web_data, w1) \<Rightarrow>
          (let location_ids = extract_location_ids web_data in
           if location_ids = [] then perform_web_search env query count 0 w1
           else (case gather_lookups env location_ids w1 of
                   (Inl e, w2) \<Rightarrow> (Inl e, w2)
                 | (Inr (pois_data, descriptions_data), w2) \<Rightarrow>
                     (Inr (format_local_results (float_str env) pois_data descriptions_data), w2))))"

section \<open>The tools (lines 285--344)\<close>

text \<open>\<^verbatim>\<open>try: return ... except Exception as e: return f"Error: {str(e)}"\<close>.\<close>

definition brave_web_search ::
  "'f env \<Rightarrow> string \<Rightarrow> int \<Rightarrow> int \<Rightarrow> world \<Rightarrow> string \<times> world" where
  "brave_web_search env query count offset w =
     (case perform_web_search env query count offset w of
        (Inl e, w') \<Rightarrow> (''Error: '' @ str_exc e, w')
      | (Inr s, w') \<Rightarrow> (s, w'))"

definition brave_local_search ::
  "'f env \<Rightarrow> string \<Rightarrow> int \<Rightarrow> world \<Rightarrow> string \<times> world" where
  "brave_local_search env query count w =
     (case perform_local_search env query count w of
        (Inl e, w') \<Rightarrow> (''Error: '' @ str_exc e, w')
      | (Inr s, w') \<Rightarrow> (s, w'))"

section \<open>The specification's wording of the local block\<close>

text \<open>
  The text of an address part: empty when the key is absent or bound to \<^verbatim>\<open>None\<close>.
\<close>

fun part_text :: "string field \<Rightarrow> string" where
  "part_text Absent = []"
| "part_text Null = []"
| "part_text (Present s) = s"

text \<open>
  The parts of the address that are not empty, in the order street, locality, region,
  postal code; joined with a comma and a space, or \<^verbatim>\<open>N/A\<close> when there is none.
\<close>

definition spec_address_parts :: "'f location \<Rightarrow> string list" where
  "spec_address_parts poi =
     (case address poi of
        None \<Rightarrow> []
      | Some a \<Rightarrow>
          filter (\<lambda>s. s \<noteq> [])
            [part_text (streetAddress a), part_text (addressLocality a),
             part_text (addressRegion a), part_text (postalCode a)])"

definition spec_address :: "'f location \<Rightarrow> string" where
  "spec_address poi =
     (if spec_address_parts poi = [] then ''N/A'' else join '', '' (spec_address_parts poi))"

text \<open>The rating's value or \<^verbatim>\<open>N/A\<close>, and its count or 0.\<close>

definition spec_rating_value :: "('f \<Rightarrow> string) \<Rightarrow> 'f location \<Rightarrow> string" where
  "spec_rating_value fstr poi =
     (case rating poi of
        Present r \<Rightarrow> (case ratingValue r of Present v \<Rightarrow> fstr v | Null \<Rightarrow> ''N/A'' | Absent \<Rightarrow> ''N/A'')
      | Null \<Rightarrow> ''N/A''
      | Absent \<Rightarrow> ''N/A'')"

definition spec_rating_count :: "'f location \<Rightarrow> int" where
  "spec_rating_count poi =
     (case rating poi of
        Present r \<Rightarrow> (case ratingCount r of Present n \<Rightarrow> n | Null \<Rightarrow> 0 | Absent \<Rightarrow> 0)
      | Null \<Rightarrow> 0
      | Absent \<Rightarrow> 0)"

text \<open>The description map of an answer: no entry at all when the key is absent.\<close>

definition description_map :: "description_response \<Rightarrow> string \<Rightarrow> string option" where
  "description_map desc_data = (case descriptions desc_data of None \<Rightarrow> Map.empty | Some m \<Rightarrow> map_of m)"

definition spec_description :: "description_response \<Rightarrow> 'f location \<Rightarrow> string" where
  "spec_description desc_data poi =
     (case description_map desc_data (poi_id poi) of
        None \<Rightarrow> ''No description available''
      | Some d \<Rightarrow> d)"

section \<open>Collaborators for the examples\<close>

text \<open>
  A clock that advances by \<open>d\<close> seconds per reading, and an HTTP client that replays a
  list of answers and then answers 404, as the client of the module's tests does.
\<close>

definition clock_every :: "real \<Rightarrow> nat \<Rightarrow> real" where
  "clock_every d k = d * real k"

definition ok :: "'a \<Rightarrow> 'a http_result" where
  "ok data = Returns \<lparr>status_code = 200, reason_phrase = ''OK'', body_text = [], json = Inr data\<rparr>"

definition not_found :: "'a http_result" where
  "not_found =
     Returns \<lparr>status_code = 404, reason_phrase = ''Error'', body_text = ''{}'', json = Inl []\<rparr>"

definition replay :: "'a http_result list \<Rightarrow> nat \<Rightarrow> request \<Rightarrow> 'a http_result" where
  "replay answers k req = (if k < length answers then answers ! k else not_found)"

definition example_env :: "real \<Rightarrow> web_response http_result list \<Rightarrow> string env" where
  "example_env d answers =
     \<lparr>clock = clock_every d, web_api = replay answers, pois_api = replay [],
      descriptions_api = replay [], float_str = id, BRAVE_API_KEY = ''test_api_key'',
      pois_done_first = True\<rparr>"

text \<open>
  The sample answers of the module's tests (\<^verbatim>\<open>tests/test_search.py\<close>, lines 13--84). A
  float is carried by its \<^verbatim>\<open>str\<close>.
\<close>

definition sample_web_response :: web_response where
  "sample_web_response =
     \<lparr>web = Present
        [(''results'',
          [\<lparr>title = Some ''Sample Title 1'', description = Some ''Sample Description 1'',
            url = Some ''https://example.com/1''\<rparr>,
           \<lparr>title = Some ''Sample Title 2'', description = Some ''Sample Description 2'',
            url = Some ''https://example.com/2''\<rparr>])],
      locations = Absent\<rparr>"

definition sample_pois_response :: "string poi_response" where
  "sample_pois_response =
     \<lparr>results = Some
        [\<lparr>poi_id = ''loc1'', name = Some ''Restaurant 1'',
          address = Some \<lparr>streetAddress = Present ''123 Main St'',
                          addressLocality = Present ''Anytown'',
                          addressRegion = Present ''CA'', postalCode = Present ''12345''\<rparr>,
          phone = Present ''+1-555-123-4567'',
          rating = Present \<lparr>ratingValue = Present ''4.5'', ratingCount = Present 100\<rparr>,
          openingHours = Present [''Mon-Fri 9am-5pm'', ''Sat 10am-3pm''],
          priceRange = Present ''$$''\<rparr>,
         \<lparr>poi_id = ''loc2'', name = Some ''Restaurant 2'',
          address = Some \<lparr>streetAddress = Present ''456 Oak Ave'',
                          addressLocality = Present ''Othertown'',
                          addressRegion = Present ''NY'', postalCode = Present ''67890''\<rparr>,
          phone = Present ''+1-555-987-6543'',
          rating = Present \<lparr>ratingValue = Present ''4.0'', ratingCount = Present 75\<rparr>,
          openingHours = Present [''Mon-Sun 8am-10pm''],
          priceRange = Present ''$$$''\<rparr>]\<rparr>"

definition sample_descriptions_response :: description_response where
  "sample_descriptions_response =
     \<lparr>descriptions = Some
        [(''loc1'', ''A great place to eat with a variety of dishes.''),
         (''loc2'', ''Upscale dining with excellent service.'')]\<rparr>"



text \<open>
  A location that has a name and a street only; each key of an optional type is bound to
  \<^verbatim>\<open>None\<close>, as \<^verbatim>\<open>BraveLocation\<close> (a total \<^verbatim>\<open>TypedDict\<close>) declares it.
\<close>

definition bare_location :: "string location" where
  "bare_location =
     \<lparr>poi_id = ''loc3'', name = Some ''Corner Cafe'',
      address = Some \<lparr>streetAddress = Present ''1 High St'', addressLocality = Null,
                      addressRegion = Null, postalCode = Null\<rparr>,
      phone = Null, rating = Null, openingHours = Null, priceRange = Null\<rparr>"

text \<open>The state after one admitted call at time 0.\<close>

definition spent_world :: world where
  "spent_world =
     (initial_world 0)\<lparr>ticks := 1, request_count := \<lparr>second = 1, month = 1, last_reset = 0\<rparr>\<rparr>"

section \<open>The float subtraction: properties\<close>

lemma round_half_even_le: "x \<le> of_int n \<Longrightarrow> round_half_even x \<le> n"
proof -
  assume x: "x \<le> of_int n"
  then have f: "\<lfloor>x\<rfloor> \<le> n" by (simp add: floor_le_iff)
  show ?thesis
  proof (cases "\<lfloor>x\<rfloor> = n")
    case True
    with x have "x - of_int \<lfloor>x\<rfloor> \<le> 0" by simp
    then show ?thesis using True by (simp add: round_half_even_def Let_def)
  next
    case False
    with f have "\<lfloor>x\<rfloor> + 1 \<le> n" by simp
    then show ?thesis by (auto simp add: round_half_even_def Let_def)
  qed
qed

lemma round_half_even_ge: "of_int n \<le> x \<Longrightarrow> n \<le> round_half_even x"
proof -
  assume "of_int n \<le> x"
  then have "n \<le> \<lfloor>x\<rfloor>" by (simp add: le_floor_iff)
  then show ?thesis by (auto simp add: round_half_even_def Let_def)
qed

lemma round_half_even_above:
  assumes "even n" "of_int n \<le> x" "x < of_int n + 1"
  shows "n < round_half_even x \<longleftrightarrow> of_int n + 1/2 < x"
proof -
  from assms have "\<lfloor>x\<rfloor> = n" by (simp add: floor_unique)
  with assms(1) show ?thesis by (auto simp add: round_half_even_def Let_def)
qed

lemma ulp_pos: "0 < binary64_ulp x"
  by (simp add: binary64_ulp_def)

lemma one_lt_round64_iff: "1 < round64 d \<longleftrightarrow> 1 + 1 / 2 ^ 53 < d"
proof -
  consider "d = 0" | "d < 0" | "0 < d" "d < 1" | "1 \<le> d" "d < 2" | "2 \<le> d" by linarith
  then show ?thesis
  proof cases
    case 1
    then show ?thesis by (simp add: round64_def)
  next
    case 2
    then have "d / binary64_ulp d \<le> of_int 0"
      using ulp_pos [of d] by (simp add: divide_nonpos_pos)
    then have "round_half_even (d / binary64_ulp d) \<le> 0" by (rule round_half_even_le)
    then have "of_int (round_half_even (d / binary64_ulp d)) * binary64_ulp d \<le> 0"
      using ulp_pos [of d] by (simp add: mult_nonpos_nonneg)
    with 2 show ?thesis by (simp add: round64_def)
  next
    case 3
    define e where "e = max \<lfloor>log 2 \<bar>d\<bar>\<rfloor> (- 1022)"
    from 3 have "log 2 \<bar>d\<bar> < 0" by simp
    then have "\<lfloor>log 2 \<bar>d\<bar>\<rfloor> \<le> - 1" by (simp add: floor_le_iff)
    then have e: "e \<le> - 1" by (simp add: e_def)
    define k where "k = nat (52 - e)"
    have ulp: "binary64_ulp d = 1 / 2 ^ k"
    proof -
      have "binary64_ulp d = 2 powr (- real k)"
        using e by (simp add: binary64_ulp_def e_def [symmetric] k_def)
      then show ?thesis by (simp add: powr_minus powr_realpow inverse_eq_divide)
    qed
    have "d / binary64_ulp d \<le> of_int (2 ^ k)"
      using 3 by (simp add: ulp)
    then have "round_half_even (d / binary64_ulp d) \<le> 2 ^ k" by (rule round_half_even_le)
    then have "real_of_int (round_half_even (d / binary64_ulp d)) \<le> 2 ^ k"
      by (metis of_int_le_iff of_int_numeral of_int_power)
    then have "of_int (round_half_even (d / binary64_ulp d)) * binary64_ulp d \<le> 1"
      by (simp add: ulp field_simps)
    with 3 show ?thesis by (simp add: round64_def)
  next
    case 4
    then have "\<lfloor>log 2 \<bar>d\<bar>\<rfloor> = 0"
      by (intro floor_unique) simp_all
    then have ulp: "binary64_ulp d = 1 / 2 ^ 52"
      by (simp add: binary64_ulp_def powr_minus inverse_eq_divide)
    have q: "of_int (2 ^ 52) \<le> d * 2 ^ 52" using 4 by simp
    have "1 < round64 d \<longleftrightarrow> (2 ^ 52 :: int) < round_half_even (d * 2 ^ 52)"
    proof -
      have "1 < round64 d \<longleftrightarrow> 2 ^ 52 < real_of_int (round_half_even (d * 2 ^ 52))"
        using 4 by (simp add: round64_def ulp field_simps)
      also have "\<dots> \<longleftrightarrow> real_of_int (2 ^ 52) < real_of_int (round_half_even (d * 2 ^ 52))"
        by simp
      also have "\<dots> \<longleftrightarrow> (2 ^ 52 :: int) < round_half_even (d * 2 ^ 52)"
        by (rule of_int_less_iff)
      finally show ?thesis .
    qed
    also have "\<dots> \<longleftrightarrow> 1 + 1 / 2 ^ 53 < d"
    proof (cases "d * 2 ^ 52 < of_int (2 ^ 52) + 1")
      case True
      have "(2 ^ 52 :: int) < round_half_even (d * 2 ^ 52)
              \<longleftrightarrow> of_int (2 ^ 52) + 1 / 2 < d * 2 ^ 52"
        by (rule round_half_even_above [OF _ q True]) simp
      also have "\<dots> \<longleftrightarrow> 1 + 1 / 2 ^ 53 < d"
        by (simp add: field_simps)
      finally show ?thesis .
    next
      case False
      then have "of_int (2 ^ 52 + 1) \<le> d * 2 ^ 52" by simp
      then have "2 ^ 52 + 1 \<le> round_half_even (d * 2 ^ 52)" by (rule round_half_even_ge)
      moreover from False have "1 + 1 / 2 ^ 53 < d" by (simp add: field_simps)
      ultimately show ?thesis by simp
    qed
    finally show ?thesis .
  next
    case 5
    define e where "e = \<lfloor>log 2 \<bar>d\<bar>\<rfloor>"
    from 5 have "1 \<le> log 2 \<bar>d\<bar>" by simp
    then have e: "1 \<le> e" by (simp add: e_def le_floor_iff)
    then have emax: "max e (- 1022) = e" by simp
    have ulp: "binary64_ulp d = 2 powr (of_int e - 52)"
      by (simp add: binary64_ulp_def e_def [symmetric] emax)
    have "2 powr of_int e \<le> d"
    proof -
      have "of_int e \<le> log 2 d" using 5 by (simp add: e_def)
      then have "2 powr of_int e \<le> 2 powr log 2 d" by simp
      with 5 show ?thesis by simp
    qed
    then have "2 powr of_int e / binary64_ulp d \<le> d / binary64_ulp d"
      using ulp_pos [of d] by (simp add: divide_right_mono)
    moreover have "2 powr of_int e / binary64_ulp d = 2 ^ 52"
      by (simp add: ulp powr_diff)
    ultimately have "of_int (2 ^ 52) \<le> d / binary64_ulp d" by simp
    then have "2 ^ 52 \<le> round_half_even (d / binary64_ulp d)" by (rule round_half_even_ge)
    then have "real_of_int (2 ^ 52) \<le> real_of_int (round_half_even (d / binary64_ulp d))"
      by (simp only: of_int_le_iff)
    then have "2 ^ 52 * binary64_ulp d \<le> of_int (round_half_even (d / binary64_ulp d)) * binary64_ulp d"
      using ulp_pos [of d] by simp
    moreover have "2 ^ 52 * binary64_ulp d = 2 powr of_int e"
      by (simp add: ulp powr_diff)
    moreover have "2 \<le> 2 powr real_of_int e"
      using e powr_mono [of 1 "real_of_int e" 2] by simp
    ultimately have "2 \<le> round64 d" using 5 by (simp add: round64_def)
    moreover have "(1::real) + 1 / 2 ^ 53 < 2" by simp
    ultimately show ?thesis using 5 by linarith
  qed
qed

lemma round64_unit_binade:
  assumes "1 \<le> x" "x < 2"
  shows "round64 x = of_int (round_half_even (x * 2 ^ 52)) / 2 ^ 52"
proof -
  from assms have "\<lfloor>log 2 \<bar>x\<bar>\<rfloor> = 0"
    by (intro floor_unique) simp_all
  then have ulp: "binary64_ulp x = 1 / 2 ^ 52"
    by (simp add: binary64_ulp_def powr_minus inverse_eq_divide)
  from assms have "x \<noteq> 0" by simp
  then have "round64 x = of_int (round_half_even (x / (1 / 2 ^ 52))) * (1 / 2 ^ 52)"
    by (simp only: round64_def ulp if_False)
  then show ?thesis by simp
qed

text \<open>
  The rounding between 1 and 2, where the binary64 numbers are \<open>2\<^sup>-\<^sup>5\<^sup>2\<close> apart: a
  binary64 number stays, a number in between goes to the nearer one, and a tie goes to
  the one with the even significand.
\<close>

lemma round64_examples:
  "round64 1 = 1"
  "round64 (1 + 1 / 2 ^ 52) = 1 + 1 / 2 ^ 52"
  "round64 (1 + 1 / 2 ^ 54) = 1"
  "round64 (1 + 1 / 2 ^ 53) = 1"
  "round64 (1 + 3 / 2 ^ 53) = 1 + 2 / 2 ^ 52"
  by (simp_all add: round64_unit_binade round_half_even_def Let_def)

text \<open>
  The test of line 84 in exact terms: the rounded difference exceeds 1 when the exact
  one exceeds \<open>1 + 2\<^sup>-\<^sup>5\<^sup>3\<close>, the middle of 1 and the next binary64 number.
\<close>

lemma float_sub_gt_one: "1 < float_sub a b \<longleftrightarrow> 1 + 1 / 2 ^ 53 < a - b"
  by (simp add: float_sub_def one_lt_round64_iff)

section \<open>The rate gate: properties\<close>

lemma check_rate_limit_cases:
  "check_rate_limit env w =
     (let rc = roll_window (clock env (ticks w)) (request_count w) in
      if per_second (RATE_LIMIT w) \<le> second rc \<or> per_month (RATE_LIMIT w) \<le> month rc
      then (Inl RateLimitExceeded, w\<lparr>ticks := Suc (ticks w), request_count := rc\<rparr>)
      else (Inr (), w\<lparr>ticks := Suc (ticks w),
                       request_count := rc\<lparr>second := second rc + 1, month := month rc + 1\<rparr>\<rparr>))"
  by (simp add: check_rate_limit_def Let_def)

lemma roll_window_cases:
  "roll_window now rc =
     (if 1 + 1 / 2 ^ 53 < now - last_reset rc then rc\<lparr>second := 0, last_reset := now\<rparr> else rc)"
  by (simp only: roll_window_def float_sub_gt_one)


lemma roll_window_reset:
  "1 + 1 / 2 ^ 53 < now - last_reset rc \<Longrightarrow>
     roll_window now rc = rc\<lparr>second := 0, last_reset := now\<rparr>"
  by (simp only: roll_window_cases if_True)




lemma example_env_simps:
  "clock (example_env d answers) k = d * real k"
  "web_api (example_env d answers) = replay answers"
  by (simp_all add: example_env_def clock_every_def)


text \<open>
  Claim C2, as amended. The window is adjusted when the difference of the clock's reading
  and the window start, as line 84 computes it in binary64, exceeds 1: that is, when
  the reading is more than \<open>1 + 2\<^sup>-\<^sup>5\<^sup>3\<close> seconds past the window start. Then the
  adjustment sets the second count to 0 and the window start to the reading; the call
  leaves the second count at 1 when it succeeds and at 0 when it raises; and it succeeds
  whatever the second count was before, when the month count is below the per-month
  limit and the per-second limit is at least 1. Up to \<open>1 + 2\<^sup>-\<^sup>5\<^sup>3\<close> seconds past the
  window start, and so at exactly one second, the window is not adjusted, and the call
  raises the rate-limit error when the second count has reached its limit.
\<close>

theorem window_rollover:
  "(1 < float_sub (clock env (ticks w)) (last_reset (request_count w)) \<longleftrightarrow>
      1 + 1 / 2 ^ 53 < clock env (ticks w) - last_reset (request_count w))
   \<and> (1 + 1 / 2 ^ 53 < clock env (ticks w) - last_reset (request_count w) \<longrightarrow>
        roll_window (clock env (ticks w)) (request_count w) =
          (request_count w)\<lparr>second := 0, last_reset := clock env (ticks w)\<rparr>
        \<and> last_reset (request_count (snd (check_rate_limit env w))) = clock env (ticks w)
        \<and> second (request_count (snd (check_rate_limit env w))) =
            (if fst (check_rate_limit env w) = Inr () then 1 else 0)
        \<and> (month (request_count w) < per_month (RATE_LIMIT w) \<and> 0 < per_second (RATE_LIMIT w)
             \<longrightarrow> fst (check_rate_limit env w) = Inr ()))
   \<and> (clock env (ticks w) - last_reset (request_count w) \<le> 1 + 1 / 2 ^ 53 \<longrightarrow>
        roll_window (clock env (ticks w)) (request_count w) = request_count w
        \<and> (per_second (RATE_LIMIT w) \<le> second (request_count w) \<longrightarrow>
             fst (check_rate_limit env w) = Inl RateLimitExceeded))
   \<and> (clock env (ticks w) - last_reset (request_count w) = 1 \<longrightarrow>
        roll_window (clock env (ticks w)) (request_count w) = request_count w
        \<and> (per_second (RATE_LIMIT w) \<le> second (request_count w) \<longrightarrow>
             fst (check_rate_limit env w) = Inl RateLimitExceeded))"
proof (intro conjI impI)
  show "1 < float_sub (clock env (ticks w)) (last_reset (request_count w)) \<longleftrightarrow>
      1 + 1 / 2 ^ 53 < clock env (ticks w) - last_reset (request_count w)"
    by (rule float_sub_gt_one)
next
  assume late: "1 + 1 / 2 ^ 53 < clock env (ticks w) - last_reset (request_count w)"
  note roll = roll_window_reset [OF late]
  show "roll_window (clock env (ticks w)) (request_count w) =
          (request_count w)\<lparr>second := 0, last_reset := clock env (ticks w)\<rparr>"
    by (rule roll)
  show "last_reset (request_count (snd (check_rate_limit env w))) = clock env (ticks w)"
    by (simp add: check_rate_limit_cases roll Let_def)
  show "second (request_count (snd (check_rate_limit env w))) =
            (if fst (check_rate_limit env w) = Inr () then 1 else 0)"
    by (simp add: check_rate_limit_cases roll Let_def)
  assume "month (request_count w) < per_month (RATE_LIMIT w) \<and> 0 < per_second (RATE_LIMIT w)"
  then show "fst (check_rate_limit env w) = Inr ()"
    by (simp add: check_rate_limit_cases roll Let_def)
next
  assume early: "clock env (ticks w) - last_reset (request_count w) \<le> 1 + 1 / 2 ^ 53"
  then show same: "roll_window (clock env (ticks w)) (request_count w) = request_count w"
    by (simp add: roll_window_cases)
  assume "per_second (RATE_LIMIT w) \<le> second (request_count w)"
  then show "fst (check_rate_limit env w) = Inl RateLimitExceeded"
    by (simp add: check_rate_limit_cases same Let_def)
next
  assume one: "clock env (ticks w) - last_reset (request_count w) = 1"
  then show same: "roll_window (clock env (ticks w)) (request_count w) = request_count w"
    by (simp add: roll_window_cases)
  assume "per_second (RATE_LIMIT w) \<le> second (request_count w)"
  then show "fst (check_rate_limit env w) = Inl RateLimitExceeded"
    by (simp add: check_rate_limit_cases same Let_def)
qed

theorem window_rollover_witness:
  "fst (check_rate_limit (example_env 2 []) spent_world) = Inr ()
   \<and> request_count (snd (check_rate_limit (example_env 2 []) spent_world)) =
       \<lparr>second = 1, month = 2, last_reset = 2\<rparr>
   \<and> roll_window (clock (example_env 1 [] :: string env) (ticks spent_world))
        (request_count spent_world) = request_count spent_world
   \<and> fst (check_rate_limit (example_env 1 []) spent_world) = Inl RateLimitExceeded"
proof -
  let ?E = "example_env 2 [] :: string env"
  let ?F = "example_env 1 [] :: string env"
  have late: "1 + 1 / 2 ^ 53 < clock ?E (ticks spent_world) - last_reset (request_count spent_world)"
    by (simp add: example_env_simps initial_world_def spent_world_def)
  have room: "month (request_count spent_world) < per_month (RATE_LIMIT spent_world)
      \<and> 0 < per_second (RATE_LIMIT spent_world)"
    by (simp add: initial_world_def spent_world_def)
  have one: "clock ?F (ticks spent_world) - last_reset (request_count spent_world) = 1"
    by (simp add: example_env_simps initial_world_def spent_world_def)
  have full: "per_second (RATE_LIMIT spent_world) \<le> second (request_count spent_world)"
    by (simp add: initial_world_def spent_world_def)
  from window_rollover [of ?E spent_world] late room
  have adm: "fst (check_rate_limit ?E spent_world) = Inr ()"
    and stamp: "last_reset (request_count (snd (check_rate_limit ?E spent_world))) =
      clock ?E (ticks spent_world)"
    by blast+
  have a: "request_count (snd (check_rate_limit ?E spent_world)) =
       \<lparr>second = 1, month = 2, last_reset = 2\<rparr>"
    using adm stamp
    by (simp add: check_rate_limit_cases roll_window_cases example_env_simps initial_world_def
        spent_world_def Let_def split: if_splits)
  from window_rollover [of ?F spent_world] one full
  have b: "roll_window (clock ?F (ticks spent_world)) (request_count spent_world) =
        request_count spent_world"
    and c: "fst (check_rate_limit ?F spent_world) = Inl RateLimitExceeded"
    by blast+
  from adm a b c show ?thesis by simp
qed

text \<open>
  The rounding at work: the window started at \<open>3 \<cdot> 2\<^sup>-\<^sup>5\<^sup>4\<close> and the clock reads
  \<open>1 + 2\<^sup>-\<^sup>5\<^sup>2\<close>, more than one second later; the difference rounds to 1 and the window
  stays.
\<close>

lemma window_rounding_example:
  "(1::real) < (1 + 1 / 2 ^ 52) - 3 / 2 ^ 54
   \<and> roll_window (1 + 1 / 2 ^ 52) \<lparr>second = 1, month = 1, last_reset = 3 / 2 ^ 54\<rparr> =
       \<lparr>second = 1, month = 1, last_reset = 3 / 2 ^ 54\<rparr>"
  by (simp add: roll_window_cases)

text \<open>
  Claim C2 as stated fails at exactly one second. In \<open>spent_world\<close> the window started at
  time 0 and one call was admitted; the limits are those of lines 20--23. The next call
  reads the clock at time 1: the second count is kept at 1 and the call raises the
  rate-limit error, although the month count is below its limit.
\<close>

theorem window_boundary_counterexample:
  "1 \<le> clock (example_env 1 [] :: string env) (ticks spent_world)
          - last_reset (request_count spent_world)
   \<and> month (request_count spent_world) < per_month (RATE_LIMIT spent_world)
   \<and> fst (check_rate_limit (example_env 1 [] :: string env) spent_world) = Inl RateLimitExceeded
   \<and> request_count (snd (check_rate_limit (example_env 1 [] :: string env) spent_world)) =
       \<lparr>second = 1, month = 1, last_reset = 0\<rparr>"
  by (simp add: check_rate_limit_def roll_window_cases initial_world_def spent_world_def
      example_env_simps Let_def)

text \<open>
  Claim C10. When \<^verbatim>\<open>check_rate_limit\<close> raises, the error is the rate-limit error and
  the state is the one the window adjustment left: the month count is unchanged, and the
  second count is unchanged unless the adjustment has just reset it to 0.
\<close>

theorem rejected_admit_keeps_counts:
  "fst (check_rate_limit env w) = Inl e \<Longrightarrow>
     e = RateLimitExceeded
     \<and> snd (check_rate_limit env w) =
         w\<lparr>ticks := Suc (ticks w),
           request_count := roll_window (clock env (ticks w)) (request_count w)\<rparr>
     \<and> month (request_count (snd (check_rate_limit env w))) = month (request_count w)
     \<and> second (request_count (snd (check_rate_limit env w))) =
         (if 1 < float_sub (clock env (ticks w)) (last_reset (request_count w)) then 0
          else second (request_count w))"
  by (auto simp add: check_rate_limit_cases roll_window_def Let_def split: if_splits)

theorem rejected_admit_keeps_counts_witness:
  "fst (check_rate_limit (example_env (1/2) []) spent_world) = Inl RateLimitExceeded
   \<and> request_count (snd (check_rate_limit (example_env (1/2) []) spent_world)) =
       \<lparr>second = 1, month = 1, last_reset = 0\<rparr>"
proof -
  let ?E = "example_env (1/2) [] :: string env"
  have fails: "fst (check_rate_limit ?E spent_world) = Inl RateLimitExceeded"
    by (simp add: check_rate_limit_def roll_window_cases initial_world_def spent_world_def
        example_env_simps Let_def)
  from rejected_admit_keeps_counts [OF fails] fails show ?thesis
    by (simp add: roll_window_cases initial_world_def spent_world_def example_env_simps)
qed

section \<open>Formatting: properties\<close>

lemma format_pois_map:
  "format_pois fstr desc_data pois acc = acc @ map (format_poi fstr desc_data) pois"
  by (induction pois arbitrary: acc) simp_all

lemma append_part_eq:
  "append_part f parts = parts @ filter (\<lambda>s. s \<noteq> []) [part_text f]"
  by (cases f) (simp_all add: append_part_def)

lemma address_text_spec: "address_text poi = spec_address poi"
proof (cases "address poi")
  case None
  then show ?thesis
    by (simp add: address_text_def spec_address_def spec_address_parts_def)
next
  case (Some a)
  show ?thesis
  proof (cases "address_truthy a")
    case True
    with Some show ?thesis
      by (simp add: address_text_def spec_address_def spec_address_parts_def append_part_eq Let_def)
  next
    case False
    then have "streetAddress a = Absent" "addressLocality a = Absent"
      "addressRegion a = Absent" "postalCode a = Absent"
      by (auto simp add: address_truthy_def elim: has_key.elims)
    with Some False show ?thesis
      by (simp add: address_text_def spec_address_def spec_address_parts_def)
  qed
qed

lemma rating_text_spec:
  "rating_text fstr poi =
     spec_rating_value fstr poi @ '' ('' @ str_int (spec_rating_count poi) @ '' reviews)''"
proof (cases "rating poi")
  case (Present r)
  show ?thesis
  proof (cases "rating_truthy r")
    case True
    with Present show ?thesis
      by (cases "ratingValue r"; cases "ratingCount r")
         (simp_all add: rating_text_def spec_rating_value_def spec_rating_count_def)
  next
    case False
    then have "ratingValue r = Absent" "ratingCount r = Absent"
      by (auto simp add: rating_truthy_def elim: has_key.elims)
    with Present False show ?thesis
      by (simp add: rating_text_def spec_rating_value_def spec_rating_count_def)
  qed
qed (simp_all add: rating_text_def spec_rating_value_def spec_rating_count_def)

lemma description_text_spec: "description_text desc_data poi = spec_description desc_data poi"
  by (simp add: description_text_def spec_description_def description_map_def split: option.splits)

lemma format_poi_lines:
  "format_poi fstr desc_data poi =
     join nl
       [''Name: '' @ name_text poi,
        ''Address: '' @ spec_address poi,
        ''Phone: '' @ phone_text poi,
        ''Rating: '' @ spec_rating_value fstr poi
           @ '' ('' @ str_int (spec_rating_count poi) @ '' reviews)'',
        ''Price Range: '' @ price_range_text poi,
        ''Hours: '' @ hours_text poi,
        ''Description: '' @ spec_description desc_data poi]"
  by (simp add: format_poi_def address_text_spec rating_text_spec description_text_spec)

text \<open>
  Claim C6. For every list of places that is not empty and every description map,
  \<^verbatim>\<open>format_local_results\<close> is one block per place, in the order of the list, the blocks
  joined by a line of three dashes. A block is the seven lines Name, Address, Phone,
  Rating, Price Range, Hours and Description, in this order: the address is the parts
  that are not empty, in the order street, locality, region, postal code, joined with a
  comma and a space, or \<^verbatim>\<open>N/A\<close> when there is none; the rating is the value or
  \<^verbatim>\<open>N/A\<close>, then the count or 0 with the word reviews in parentheses; the description is
  the entry of the place's id in the map, or \<^verbatim>\<open>No description available\<close> when the map
  has none.
\<close>

theorem format_local_blocks:
  "results pois_data = Some pois \<Longrightarrow> pois \<noteq> [] \<Longrightarrow>
   format_local_results fstr pois_data desc_data =
     join (nl @ ''---'' @ nl)
       (map (\<lambda>poi. join nl
               [''Name: '' @ name_text poi,
                ''Address: '' @ spec_address poi,
                ''Phone: '' @ phone_text poi,
                ''Rating: '' @ spec_rating_value fstr poi
                   @ '' ('' @ str_int (spec_rating_count poi) @ '' reviews)'',
                ''Price Range: '' @ price_range_text poi,
                ''Hours: '' @ hours_text poi,
                ''Description: '' @ spec_description desc_data poi])
          pois)"
proof -
  assume pois: "results pois_data = Some pois" "pois \<noteq> []"
  have "format_pois fstr desc_data pois [] = map (format_poi fstr desc_data) pois"
    by (simp add: format_pois_map)
  also have "\<dots> = map (\<lambda>poi. join nl
               [''Name: '' @ name_text poi,
                ''Address: '' @ spec_address poi,
                ''Phone: '' @ phone_text poi,
                ''Rating: '' @ spec_rating_value fstr poi
                   @ '' ('' @ str_int (spec_rating_count poi) @ '' reviews)'',
                ''Price Range: '' @ price_range_text poi,
                ''Hours: '' @ hours_text poi,
                ''Description: '' @ spec_description desc_data poi]) pois"
    by (rule map_cong [OF refl]) (rule format_poi_lines)
  finally show ?thesis
    using pois by (simp only: format_local_results_def option.case if_False)
qed

theorem format_local_blocks_witness:
  "format_local_results id sample_pois_response sample_descriptions_response =
     join (nl @ ''---'' @ nl)
       [join nl
          [''Name: Restaurant 1'',
           ''Address: 123 Main St, Anytown, CA, 12345'',
           ''Phone: +1-555-123-4567'',
           ''Rating: 4.5 (100 reviews)'',
           ''Price Range: $$'',
           ''Hours: Mon-Fri 9am-5pm, Sat 10am-3pm'',
           ''Description: A great place to eat with a variety of dishes.''],
        join nl
          [''Name: Restaurant 2'',
           ''Address: 456 Oak Ave, Othertown, NY, 67890'',
           ''Phone: +1-555-987-6543'',
           ''Rating: 4.0 (75 reviews)'',
           ''Price Range: $$$'',
           ''Hours: Mon-Sun 8am-10pm'',
           ''Description: Upscale dining with excellent service.'']]"
proof -
  let ?ps = "case results sample_pois_response of Some ps \<Rightarrow> ps | None \<Rightarrow> []"
  have ps: "results sample_pois_response = Some ?ps" "?ps \<noteq> []"
    by (simp_all add: sample_pois_response_def)
  show ?thesis
    unfolding format_local_blocks [OF ps, of id sample_descriptions_response]
    by (simp add: sample_pois_response_def sample_descriptions_response_def name_text_def
        phone_text_def price_range_text_def hours_text_def spec_address_def
        spec_address_parts_def spec_rating_value_def spec_rating_count_def
        spec_description_def description_map_def str_int_def digit_char_def)
qed

text \<open>
  Claim C9. For every description map, \<^verbatim>\<open>format_local_results\<close> of an answer without
  the key \<^verbatim>\<open>results\<close>, or with an empty list of places, is exactly
  \<^verbatim>\<open>No local results found\<close>.
\<close>

theorem no_local_results:
  "format_local_results fstr \<lparr>results = None\<rparr> desc_data = ''No local results found''
   \<and> format_local_results fstr \<lparr>results = Some []\<rparr> desc_data = ''No local results found''"
  by (simp add: format_local_results_def)

text \<open>
  A key of a place that is absent is rendered as \<^verbatim>\<open>N/A\<close>: the default of
  \<^verbatim>\<open>poi.get(k, 'N/A')\<close> and the truth tests of lines 200, 214 and 221 see to it.
\<close>

lemma absent_fields_render_NA:
  "name poi = None \<Longrightarrow> name_text poi = ''N/A''"
  "phone poi = Absent \<Longrightarrow> phone_text poi = ''N/A''"
  "priceRange poi = Absent \<Longrightarrow> price_range_text poi = ''N/A''"
  "dict_get (rating poi) = None \<Longrightarrow> rating_text fstr poi = ''N/A (0 reviews)''"
  "dict_get (openingHours poi) = None \<Longrightarrow> hours_text poi = ''N/A''"
  "address poi = None \<Longrightarrow> address_text poi = ''N/A''"
  by (simp_all add: name_text_def phone_text_def price_range_text_def rating_text_def
      hours_text_def address_text_def str_int_def digit_char_def)

text \<open>
  \<^verbatim>\<open>BraveLocation\<close> declares \<^verbatim>\<open>phone\<close> and \<^verbatim>\<open>priceRange\<close> as \<^verbatim>\<open>Optional[str]\<close>, so
  a place without them binds the keys to \<^verbatim>\<open>None\<close>. Then \<^verbatim>\<open>poi.get(k, 'N/A')\<close> returns
  \<^verbatim>\<open>None\<close> and the f-string prints it, where the rating, the hours and the address of
  the same place come out as \<^verbatim>\<open>N/A\<close>.
\<close>

lemma none_fields_render_None:
  "phone poi = Null \<Longrightarrow> phone_text poi = ''None''"
  "priceRange poi = Null \<Longrightarrow> price_range_text poi = ''None''"
  by (simp_all add: phone_text_def price_range_text_def)

text \<open>
  Claim C7 says that a place's missing name, phone, price range, rating, opening hours
  and address are each rendered as \<^verbatim>\<open>N/A\<close>. The code at a place that has a name and
  a street and nothing else: the rating, the hours and the description have their
  defaults, and the lines of the phone and of the price range read \<^verbatim>\<open>None\<close>.
\<close>

theorem none_phone_rendered:
  "format_local_results id \<lparr>results = Some [bare_location]\<rparr> \<lparr>descriptions = None\<rparr> =
     join nl
       [''Name: Corner Cafe'',
        ''Address: 1 High St'',
        ''Phone: None'',
        ''Rating: N/A (0 reviews)'',
        ''Price Range: None'',
        ''Hours: N/A'',
        ''Description: No description available'']"
  by (simp add: format_local_results_def format_poi_def bare_location_def name_text_def
      phone_text_def price_range_text_def hours_text_def address_text_def address_truthy_def
      append_part_def rating_text_def description_text_def str_int_def digit_char_def)

section \<open>The searches and the tools: properties\<close>

lemma check_rate_limit_sent: "sent (snd (check_rate_limit env w)) = sent w"
  by (simp add: check_rate_limit_cases Let_def)

lemma check_rate_limit_error:
  "fst (check_rate_limit env w) = Inl e \<Longrightarrow> e = RateLimitExceeded"
  by (simp add: check_rate_limit_cases Let_def split: if_splits)

lemma http_get_sent: "sent (snd (http_get api req w)) = sent w @ [req]"
  by (simp add: http_get_def Let_def split: http_result.splits sum.splits)

lemma web_search_request_clamp:
  "20 < count \<Longrightarrow> web_search_request env query count offset = web_search_request env query 20 offset"
  by (simp add: web_search_request_def)

lemma local_search_request_clamp:
  "20 < count \<Longrightarrow> local_search_request env query count = local_search_request env query 20"
  by (simp add: local_search_request_def)

lemma perform_web_search_clamp:
  "20 < count \<Longrightarrow>
     perform_web_search env query count offset w = perform_web_search env query 20 offset w"
  unfolding perform_web_search_def by (simp only: web_search_request_clamp)

lemma perform_local_search_clamp:
  "20 < count \<Longrightarrow> perform_local_search env query count w = perform_local_search env query 20 w"
  unfolding perform_local_search_def initial_lookup_def
  by (simp only: local_search_request_clamp perform_web_search_clamp)

lemma perform_web_search_sent:
  "sent (snd (perform_web_search env query count offset w)) =
     (if fst (check_rate_limit env w) = Inr ()
      then sent w @ [web_search_request env query count offset] else sent w)"
proof (cases "check_rate_limit env w")
  case (Pair r w1)
  then have w1: "sent w1 = sent w"
    using check_rate_limit_sent [of env w] by simp
  show ?thesis
  proof (cases r)
    case (Inl e)
    with Pair w1 show ?thesis by (simp add: perform_web_search_def)
  next
    case (Inr u)
    with Pair w1 http_get_sent [of "web_api env" "web_search_request env query count offset" w1]
    show ?thesis
      by (auto simp add: perform_web_search_def split: prod.splits sum.splits)
  qed
qed

lemma initial_lookup_sent:
  "sent (snd (initial_lookup env query count w)) =
     (if fst (check_rate_limit env w) = Inr ()
      then sent w @ [local_search_request env query count] else sent w)"
proof (cases "check_rate_limit env w")
  case (Pair r w1)
  then have w1: "sent w1 = sent w"
    using check_rate_limit_sent [of env w] by simp
  show ?thesis
  proof (cases r)
    case (Inl e)
    with Pair w1 show ?thesis by (simp add: initial_lookup_def)
  next
    case (Inr u)
    with Pair w1 http_get_sent [of "web_api env" "local_search_request env query count" w1]
    show ?thesis
      by (simp add: initial_lookup_def)
  qed
qed

text \<open>
  Claim C5. For every count above 20, the parameters of the web-search request and of
  the initial local-search request carry the count 20; the request that a web search or
  a local search records as sent, when the rate gate admits it, is the request for 20;
  and both searches behave as they do for the count 20, state and outcome alike, so the
  larger count raises nothing of its own.
\<close>

theorem count_clamped:
  "20 < count \<Longrightarrow>
     req_params (web_search_request env query count offset) =
       [(''q'', PStr query), (''count'', PInt 20), (''offset'', PInt offset)]
     \<and> req_params (local_search_request env query count) =
       [(''q'', PStr query), (''search_lang'', PStr ''en''),
        (''result_filter'', PStr ''locations''), (''count'', PInt 20)]
     \<and> sent (snd (perform_web_search env query count offset w)) =
         (if fst (check_rate_limit env w) = Inr ()
          then sent w @ [web_search_request env query 20 offset] else sent w)
     \<and> sent (snd (initial_lookup env query count w)) =
         (if fst (check_rate_limit env w) = Inr ()
          then sent w @ [local_search_request env query 20] else sent w)
     \<and> perform_web_search env query count offset w = perform_web_search env query 20 offset w
     \<and> perform_local_search env query count w = perform_local_search env query 20 w"
proof (intro conjI)
  assume c: "20 < count"
  show "req_params (web_search_request env query count offset) =
       [(''q'', PStr query), (''count'', PInt 20), (''offset'', PInt offset)]"
    using c by (simp add: web_search_request_def)
  show "req_params (local_search_request env query count) =
       [(''q'', PStr query), (''search_lang'', PStr ''en''),
        (''result_filter'', PStr ''locations''), (''count'', PInt 20)]"
    using c by (simp add: local_search_request_def)
  show "sent (snd (perform_web_search env query count offset w)) =
         (if fst (check_rate_limit env w) = Inr ()
          then sent w @ [web_search_request env query 20 offset] else sent w)"
    using c by (simp only: perform_web_search_sent web_search_request_clamp)
  show "sent (snd (initial_lookup env query count w)) =
         (if fst (check_rate_limit env w) = Inr ()
          then sent w @ [local_search_request env query 20] else sent w)"
    using c by (simp only: initial_lookup_sent local_search_request_clamp)
  show "perform_web_search env query count offset w = perform_web_search env query 20 offset w"
    using c by (rule perform_web_search_clamp)
  show "perform_local_search env query count w = perform_local_search env query 20 w"
    using c by (rule perform_local_search_clamp)
qed

lemma replay_simps:
  "replay [] k req = not_found"
  "replay (a # as) 0 req = a"
  "replay (a # as) (Suc k) req = replay as k req"
  by (simp_all add: replay_def)

theorem count_clamped_witness:
  "req_params (web_search_request (example_env 0 [ok sample_web_response]) ''test query'' 50 0) =
     [(''q'', PStr ''test query''), (''count'', PInt 20), (''offset'', PInt 0)]
   \<and> sent (snd (perform_web_search (example_env 0 [ok sample_web_response]) ''test query'' 50 0
        (initial_world 0))) =
       [web_search_request (example_env 0 [ok sample_web_response]) ''test query'' 20 0]
   \<and> perform_web_search (example_env 0 [ok sample_web_response]) ''test query'' 50 0 (initial_world 0) =
       perform_web_search (example_env 0 [ok sample_web_response]) ''test query'' 20 0 (initial_world 0)"
proof -
  let ?E = "example_env 0 [ok sample_web_response]"
  have big: "(20::int) < 50" by simp
  have adm: "fst (check_rate_limit ?E (initial_world 0)) = Inr ()"
    by (simp add: check_rate_limit_def roll_window_cases initial_world_def example_env_def
        clock_every_def Let_def)
  have none: "sent (initial_world 0) = []"
    by (simp add: initial_world_def)
  note c = count_clamped [OF big, of ?E "''test query''" 0 "initial_world 0"]
  from c have params: "req_params (web_search_request ?E ''test query'' 50 0) =
     [(''q'', PStr ''test query''), (''count'', PInt 20), (''offset'', PInt 0)]"
    by (rule conjunct1)
  from c have "sent (snd (perform_web_search ?E ''test query'' 50 0 (initial_world 0))) =
         (if fst (check_rate_limit ?E (initial_world 0)) = Inr ()
          then sent (initial_world 0) @ [web_search_request ?E ''test query'' 20 0]
          else sent (initial_world 0))"
    by (rule conjunct2 [THEN conjunct2, THEN conjunct1])
  then have log: "sent (snd (perform_web_search ?E ''test query'' 50 0 (initial_world 0))) =
       [web_search_request ?E ''test query'' 20 0]"
    by (simp only: adm none if_True append_Nil simp_thms)
  from c have same: "perform_web_search ?E ''test query'' 50 0 (initial_world 0) =
       perform_web_search ?E ''test query'' 20 0 (initial_world 0)"
    by (rule conjunct2 [THEN conjunct2, THEN conjunct2, THEN conjunct2, THEN conjunct1])
  from params log same show ?thesis by (intro conjI)
qed






lemma perform_web_search_refused:
  "fst (check_rate_limit env w) = Inl e \<Longrightarrow>
     fst (perform_web_search env query count offset w) = Inl RateLimitExceeded"
  using check_rate_limit_error [of env w e]
  by (cases "check_rate_limit env w") (simp add: perform_web_search_def)







lemma tool_texts:
  "fst (brave_web_search env query count offset w) =
     (case fst (perform_web_search env query count offset w) of
        Inl e \<Rightarrow> ''Error: '' @ str_exc e | Inr s \<Rightarrow> s)"
  "fst (brave_local_search env query count w) =
     (case fst (perform_local_search env query count w) of
        Inl e \<Rightarrow> ''Error: '' @ str_exc e | Inr s \<Rightarrow> s)"
  by (simp_all add: brave_web_search_def brave_local_search_def split: prod.splits sum.splits)

lemma http_get_failure:
  "api (length (sent w)) req = Raises msg \<Longrightarrow> fst (http_get api req w) = Inl (TransportError msg)"
  "api (length (sent w)) req = Returns r \<Longrightarrow> status_code r \<noteq> 200 \<Longrightarrow>
     fst (http_get api req w) = Inl (UpstreamError (status_code r) (reason_phrase r) (body_text r))"
  by (simp_all add: http_get_def)

lemma perform_local_search_rate_limited:
  "fst (check_rate_limit env w) = Inl e \<Longrightarrow>
     fst (perform_local_search env query count w) = Inl RateLimitExceeded"
  using check_rate_limit_error [of env w e]
  by (cases "check_rate_limit env w") (simp add: perform_local_search_def initial_lookup_def)

lemma perform_web_search_http_failure:
  assumes "fst (check_rate_limit env w) = Inr ()"
      and "fst (http_get (web_api env) (web_search_request env query count offset)
                 (snd (check_rate_limit env w))) = Inl e"
  shows "fst (perform_web_search env query count offset w) = Inl e"
  using assms
  by (cases "check_rate_limit env w")
     (auto simp add: perform_web_search_def split: prod.splits sum.splits)

lemma perform_local_search_http_failure:
  assumes "fst (check_rate_limit env w) = Inr ()"
      and "fst (http_get (web_api env) (local_search_request env query count)
                 (snd (check_rate_limit env w))) = Inl e"
  shows "fst (perform_local_search env query count w) = Inl e"
  using assms
  by (cases "check_rate_limit env w")
     (auto simp add: perform_local_search_def initial_lookup_def split: prod.splits sum.splits)

text \<open>
  Claim C4. Whatever error the web search or the local search raises, the tool returns
  the text \<^verbatim>\<open>Error: \<close> followed by the message of the error, and the text of the search
  when it raises none. In particular both tools return \<^verbatim>\<open>Error: Rate limit exceeded\<close>
  when the rate gate refuses the call; and when it admits the call, they return
  \<^verbatim>\<open>Error: Brave API error: \<close> with the status, the reason and the body for an answer
  of the first request with a status other than 200, and \<^verbatim>\<open>Error: \<close> with the
  collaborator's own message when sending it fails. A tool is a function to a text: no
  error leaves it.
\<close>

theorem tool_boundary:
  "(fst (perform_web_search env query count offset w) = Inl e \<longrightarrow>
      fst (brave_web_search env query count offset w) = ''Error: '' @ str_exc e)
   \<and> (fst (perform_local_search env query count w) = Inl e' \<longrightarrow>
      fst (brave_local_search env query count w) = ''Error: '' @ str_exc e')
   \<and> (fst (perform_web_search env query count offset w) = Inr s \<longrightarrow>
      fst (brave_web_search env query count offset w) = s)
   \<and> (fst (perform_local_search env query count w) = Inr s' \<longrightarrow>
      fst (brave_local_search env query count w) = s')
   \<and> (fst (check_rate_limit env w) = Inl e0 \<longrightarrow>
      fst (brave_web_search env query count offset w) = ''Error: Rate limit exceeded''
      \<and> fst (brave_local_search env query count w) = ''Error: Rate limit exceeded'')
   \<and> (fst (check_rate_limit env w) = Inr ()
       \<and> web_api env (length (sent w)) (web_search_request env query count offset) = Returns r
       \<and> status_code r \<noteq> 200 \<longrightarrow>
      fst (brave_web_search env query count offset w) =
        ''Error: Brave API error: '' @ str_int (status_code r) @ '' '' @ reason_phrase r
          @ nl @ body_text r)
   \<and> (fst (check_rate_limit env w) = Inr ()
       \<and> web_api env (length (sent w)) (local_search_request env query count) = Returns r'
       \<and> status_code r' \<noteq> 200 \<longrightarrow>
      fst (brave_local_search env query count w) =
        ''Error: Brave API error: '' @ str_int (status_code r') @ '' '' @ reason_phrase r'
          @ nl @ body_text r')
   \<and> (fst (check_rate_limit env w) = Inr ()
       \<and> web_api env (length (sent w)) (web_search_request env query count offset) = Raises msg \<longrightarrow>
      fst (brave_web_search env query count offset w) = ''Error: '' @ msg)
   \<and> (fst (check_rate_limit env w) = Inr ()
       \<and> web_api env (length (sent w)) (local_search_request env query count) = Raises msg' \<longrightarrow>
      fst (brave_local_search env query count w) = ''Error: '' @ msg')"
proof -
  have len: "length (sent (snd (check_rate_limit env w))) = length (sent w)"
    by (simp add: check_rate_limit_sent)
  show ?thesis
  proof (intro conjI impI)
    assume "fst (check_rate_limit env w) = Inl e0"
    then show "fst (brave_web_search env query count offset w) = ''Error: Rate limit exceeded''"
      and "fst (brave_local_search env query count w) = ''Error: Rate limit exceeded''"
      by (simp_all add: tool_texts perform_web_search_refused
          perform_local_search_rate_limited)
  next
    assume a: "fst (check_rate_limit env w) = Inr ()
       \<and> web_api env (length (sent w)) (web_search_request env query count offset) = Returns r
       \<and> status_code r \<noteq> 200"
    then have "fst (http_get (web_api env) (web_search_request env query count offset)
                 (snd (check_rate_limit env w)))
               = Inl (UpstreamError (status_code r) (reason_phrase r) (body_text r))"
      by (intro http_get_failure(2)) (simp_all add: len)
    with a show "fst (brave_web_search env query count offset w) =
        ''Error: Brave API error: '' @ str_int (status_code r) @ '' '' @ reason_phrase r
          @ nl @ body_text r"
      by (simp add: tool_texts perform_web_search_http_failure)
  next
    assume a: "fst (check_rate_limit env w) = Inr ()
       \<and> web_api env (length (sent w)) (local_search_request env query count) = Returns r'
       \<and> status_code r' \<noteq> 200"
    then have "fst (http_get (web_api env) (local_search_request env query count)
                 (snd (check_rate_limit env w)))
               = Inl (UpstreamError (status_code r') (reason_phrase r') (body_text r'))"
      by (intro http_get_failure(2)) (simp_all add: len)
    with a show "fst (brave_local_search env query count w) =
        ''Error: Brave API error: '' @ str_int (status_code r') @ '' '' @ reason_phrase r'
          @ nl @ body_text r'"
      by (simp add: tool_texts perform_local_search_http_failure)
  next
    assume a: "fst (check_rate_limit env w) = Inr ()
       \<and> web_api env (length (sent w)) (web_search_request env query count offset) = Raises msg"
    then have "fst (http_get (web_api env) (web_search_request env query count offset)
                 (snd (check_rate_limit env w))) = Inl (TransportError msg)"
      by (intro http_get_failure(1)) (simp_all add: len)
    with a show "fst (brave_web_search env query count offset w) = ''Error: '' @ msg"
      by (simp add: tool_texts perform_web_search_http_failure)
  next
    assume a: "fst (check_rate_limit env w) = Inr ()
       \<and> web_api env (length (sent w)) (local_search_request env query count) = Raises msg'"
    then have "fst (http_get (web_api env) (local_search_request env query count)
                 (snd (check_rate_limit env w))) = Inl (TransportError msg')"
      by (intro http_get_failure(1)) (simp_all add: len)
    with a show "fst (brave_local_search env query count w) = ''Error: '' @ msg'"
      by (simp add: tool_texts perform_local_search_http_failure)
  qed (simp_all add: tool_texts)
qed

theorem tool_boundary_witness:
  "fst (brave_web_search (example_env 0 []) ''test query'' 10 0 (initial_world 0)) =
     ''Error: Brave API error: 404 Error'' @ nl @ ''{}''
   \<and> fst (brave_local_search (example_env 0 [Raises ''All connection attempts failed''])
          ''cafes near me'' 5 (initial_world 0)) =
     ''Error: All connection attempts failed''
   \<and> fst (brave_local_search (example_env (1/2) []) ''cafes near me'' 5 spent_world) =
     ''Error: Rate limit exceeded''"
proof -
  let ?E = "example_env 0 [] :: string env"
  let ?D = "example_env 0 [Raises ''All connection attempts failed''] :: string env"
  let ?F = "example_env (1/2) [] :: string env"
  have adm: "fst (check_rate_limit ?E (initial_world 0)) = Inr ()"
    "fst (check_rate_limit ?D (initial_world 0)) = Inr ()"
    by (simp_all add: check_rate_limit_def roll_window_cases initial_world_def example_env_def
        clock_every_def Let_def)
  have ref: "fst (check_rate_limit ?F spent_world) = Inl RateLimitExceeded"
    by (simp add: check_rate_limit_def roll_window_cases initial_world_def spent_world_def
        example_env_def clock_every_def Let_def)
  have up: "web_api ?E (length (sent (initial_world 0))) (web_search_request ?E ''test query'' 10 0)
      = Returns \<lparr>status_code = 404, reason_phrase = ''Error'', body_text = ''{}'', json = Inl []\<rparr>"
    by (simp add: example_env_def replay_simps not_found_def)
  have down: "web_api ?D (length (sent (initial_world 0)))
      (local_search_request ?D ''cafes near me'' 5) = Raises ''All connection attempts failed''"
    by (simp add: example_env_def replay_simps initial_world_def)
  from tool_boundary [where env = ?E and query = "''test query''" and count = 10 and offset = 0
      and w = "initial_world 0"
      and r = "\<lparr>status_code = 404, reason_phrase = ''Error'', body_text = ''{}'', json = Inl []\<rparr>"]
    adm(1) up
  have a: "fst (brave_web_search ?E ''test query'' 10 0 (initial_world 0)) =
     ''Error: Brave API error: 404 Error'' @ nl @ ''{}''"
    by (simp add: str_int_def digit_char_def)
  from tool_boundary [where env = ?D and query = "''cafes near me''" and count = 5
      and w = "initial_world 0" and msg' = "''All connection attempts failed''"]
    adm(2) down
  have b: "fst (brave_local_search ?D ''cafes near me'' 5 (initial_world 0)) =
     ''Error: All connection attempts failed''"
    by simp
  from tool_boundary [where env = ?F and query = "''cafes near me''" and count = 5
      and w = spent_world and ?e0.0 = RateLimitExceeded] ref
  have c: "fst (brave_local_search ?F ''cafes near me'' 5 spent_world) = ''Error: Rate limit exceeded''"
    by simp
  from a b c show ?thesis by simp
qed

section \<open>Extraction of the web results: properties\<close>

lemma collect_results_map:
  "collect_results rs acc =
     acc @ map (\<lambda>r. \<lparr>item_title = (case title r of None \<Rightarrow> [] | Some s \<Rightarrow> s),
                     item_description = (case description r of None \<Rightarrow> [] | Some s \<Rightarrow> s),
                     item_url = (case url r of None \<Rightarrow> [] | Some s \<Rightarrow> s)\<rparr>) rs"
  by (induction rs arbitrary: acc) simp_all

lemma extract_web_results_found:
  "web data = Absent \<Longrightarrow> extract_web_results data = Inr []"
  "web data = Present d \<Longrightarrow> map_of d ''results'' = None \<Longrightarrow> extract_web_results data = Inr []"
  "web data = Present d \<Longrightarrow> map_of d ''results'' = Some rs \<Longrightarrow>
     extract_web_results data =
       Inr (map (\<lambda>r. \<lparr>item_title = (case title r of None \<Rightarrow> [] | Some s \<Rightarrow> s),
                      item_description = (case description r of None \<Rightarrow> [] | Some s \<Rightarrow> s),
                      item_url = (case url r of None \<Rightarrow> [] | Some s \<Rightarrow> s)\<rparr>) rs)"
  by (simp_all add: extract_web_results_def collect_results_map)

lemma extract_web_results_None:
  "web data = Null \<Longrightarrow> extract_web_results data = Inl (TypeError not_iterable)"
  by (simp add: extract_web_results_def)

lemma sample_web_search:
  "perform_web_search (example_env 0 [ok sample_web_response]) ''test query'' 10 0 (initial_world 0) =
     (Inr (join (nl @ nl)
        [join nl [''Title: Sample Title 1'', ''Description: Sample Description 1'',
                  ''URL: https://example.com/1''],
         join nl [''Title: Sample Title 2'', ''Description: Sample Description 2'',
                  ''URL: https://example.com/2'']]),
      spent_world\<lparr>sent := [web_search_request (example_env 0 [ok sample_web_response]) ''test query'' 10 0]\<rparr>)"
  by (simp add: perform_web_search_def check_rate_limit_def roll_window_cases initial_world_def
      spent_world_def example_env_def clock_every_def http_get_def replay_simps ok_def
      extract_web_results_def sample_web_response_def format_web_results_def
      format_web_result_def Let_def)

text \<open>
  Claim C8 says that a web search turns every upstream answer into the list of its web
  results, empty when there is none, and formats it. \<^verbatim>\<open>BraveWebResponse\<close> declares
  \<^verbatim>\<open>web\<close> as \<^verbatim>\<open>Optional\<close>; for an answer that binds the key to \<^verbatim>\<open>None\<close> the test
  \<^verbatim>\<open>'results' in data['web']\<close> of line 124 raises \<^verbatim>\<open>TypeError\<close>, and the tool returns
  that error's text.
\<close>

theorem none_web_raises:
  "fst (perform_web_search (example_env 0 [ok \<lparr>web = Null, locations = Absent\<rparr>])
          ''test query'' 10 0 (initial_world 0)) = Inl (TypeError not_iterable)
   \<and> fst (brave_web_search (example_env 0 [ok \<lparr>web = Null, locations = Absent\<rparr>])
          ''test query'' 10 0 (initial_world 0)) = ''Error: '' @ not_iterable"
  by (simp add: brave_web_search_def perform_web_search_def check_rate_limit_def roll_window_cases
      initial_world_def example_env_def clock_every_def http_get_def replay_simps ok_def
      extract_web_results_def Let_def)

end
